theory Spec2Isabelle
  imports Main "HOL-Library.Word"
begin

section \<open>JavaScript strings and thrown values\<close>

text \<open>
  A JavaScript string is a sequence of UTF-16 code units. The regular expression of
  \<^verbatim>\<open>parseDataUrl\<close> has no \<^verbatim>\<open>u\<close> flag, so it works on code units, and so does
  \<^verbatim>\<open>startsWith\<close>. String literals of the source are ASCII and are embedded with \<open>js\<close>.
\<close>

type_synonym code_unit = "16 word"
type_synonym jsstring = "code_unit list"

definition js :: "string \<Rightarrow> jsstring" where
  "js s = map of_char s"

text \<open>\<^verbatim>\<open>s.startsWith(p)\<close>.\<close>

definition startsWith :: "jsstring \<Rightarrow> jsstring \<Rightarrow> bool" where
  "startsWith s p \<longleftrightarrow> take (length p) s = p"

text \<open>
  A value that reaches a \<^verbatim>\<open>catch\<close> clause: either an instance of \<^verbatim>\<open>Error\<close> with its
  message, or any other value (JavaScript can throw, and a promise can reject with,
  anything). The two \<^verbatim>\<open>catch\<close> clauses of the program tell them apart with
  \<^verbatim>\<open>instanceof Error\<close>.
\<close>

datatype thrown = Error jsstring | NonError

section \<open>The regular expression of parseDataUrl\<close>

text \<open>
  \<^verbatim>\<open>/^data:(.+);base64,(.+)$/\<close>, without flags. The pattern starts with \<^verbatim>\<open>^\<close>, so
  \<^verbatim>\<open>match\<close> can only succeed at index 0, and \<^verbatim>\<open>$\<close> is the end of the input. The
  matcher is written as ECMAScript defines it, with continuations: every piece of the
  pattern takes the matcher of the rest of the pattern and the rest of the input.

  \<^verbatim>\<open>.\<close> matches one code unit that is not a line terminator (LF, CR, U+2028, U+2029).
\<close>

definition lineTerminator :: "code_unit \<Rightarrow> bool" where
  "lineTerminator c \<longleftrightarrow> c = 0x000A \<or> c = 0x000D \<or> c = 0x2028 \<or> c = 0x2029"

definition dot :: "code_unit \<Rightarrow> bool" where
  "dot c \<longleftrightarrow> \<not> lineTerminator c"

text \<open>
  A greedy quantifier tries the longest repetition first and gives back one code unit
  at a time while the rest of the pattern fails; \<^verbatim>\<open>+\<close> never goes below one.
  \<open>backtrack k s n\<close> tries the capture \<open>take n s\<close>, then \<open>take (n - 1) s\<close>, down to
  one code unit, and returns the first capture after which the continuation \<open>k\<close>
  succeeds.
\<close>

fun backtrack :: "(jsstring \<Rightarrow> 'a option) \<Rightarrow> jsstring \<Rightarrow> nat \<Rightarrow> (jsstring \<times> 'a) option" where
  "backtrack k s 0 = None"
| "backtrack k s (Suc n) =
     (case k (drop (Suc n) s) of
        Some r \<Rightarrow> Some (take (Suc n) s, r)
      | None \<Rightarrow> backtrack k s n)"

text \<open>The capturing group \<^verbatim>\<open>(.+)\<close>: the longest run of \<^verbatim>\<open>.\<close> first.\<close>

definition dotPlus :: "(jsstring \<Rightarrow> 'a option) \<Rightarrow> jsstring \<Rightarrow> (jsstring \<times> 'a) option" where
  "dotPlus k s = backtrack k s (length (takeWhile dot s))"

text \<open>A literal piece of the pattern, such as \<^verbatim>\<open>data:\<close>.\<close>

definition literal :: "jsstring \<Rightarrow> (jsstring \<Rightarrow> 'a option) \<Rightarrow> jsstring \<Rightarrow> 'a option" where
  "literal l k s = (if startsWith s l then k (drop (length l) s) else None)"

text \<open>\<^verbatim>\<open>$\<close> at the end of the pattern.\<close>

definition endOfInput :: "jsstring \<Rightarrow> unit option" where
  "endOfInput s = (if s = [] then Some () else None)"

text \<open>The whole pattern; the result holds the two captures, \<^verbatim>\<open>match[1]\<close> and \<^verbatim>\<open>match[2]\<close>.\<close>

definition dataUrlRegex :: "jsstring \<Rightarrow> (jsstring \<times> jsstring \<times> unit) option" where
  "dataUrlRegex =
     literal (js ''data:'') (dotPlus (literal (js '';base64,'') (dotPlus endOfInput)))"

section \<open>services/geminiService.ts\<close>

record dataUrlParts =
  base64Data :: jsstring
  mimeType :: jsstring

definition parseDataUrl :: "jsstring \<Rightarrow> thrown + dataUrlParts" where
  "parseDataUrl dataUrl =
     (case dataUrlRegex dataUrl of
        None \<Rightarrow> Inl (Error (js ''Invalid data URL format''))
      | Some (m1, m2, _) \<Rightarrow> Inr \<lparr>base64Data = m2, mimeType = m1\<rparr>)"

text \<open>
  The types of the \<^verbatim>\<open>@google/genai\<close> client are not part of the repository; the
  records below hold the fields that the program reads or writes. At run time any of
  \<^verbatim>\<open>candidates\<close>, \<^verbatim>\<open>content\<close>, \<^verbatim>\<open>parts\<close>, \<^verbatim>\<open>inlineData\<close> and \<^verbatim>\<open>finishReason\<close> may be absent
  (\<^verbatim>\<open>undefined\<close>, here \<open>None\<close>), and the array of candidates may be empty. The data of
  an inline payload is a string, as the result type that \<^verbatim>\<open>removeImageBackground\<close>
  declares says.
\<close>

record blob =
  data :: jsstring
  blobMimeType :: jsstring

record part =
  inlineData :: "blob option"
  partText :: "jsstring option"

record content =
  parts :: "part list option"

record candidate =
  content :: "content option"
  finishReason :: "jsstring option"

record response =
  candidates :: "candidate list option"

datatype Modality = IMAGE | TEXT

record config =
  responseModalities :: "Modality list"

record request =
  requestModel :: jsstring
  contents :: content
  requestConfig :: config

definition model :: jsstring where
  "model = js ''gemini-2.5-flash-image-preview''"

definition PROMPT :: jsstring where
  "PROMPT =
     [0x000A] @ js ''You are an expert image editor specializing in background removal.'' @
     [0x000A] @ js ''Your task is to remove the background from the uploaded image with maximum precision.'' @
     [0x000A] @ js ''- The subject must be perfectly intact.'' @
     [0x000A] @ js ''- Preserve the original resolution.'' @
     [0x000A] @ js ''- Keep all edges sharp and clean.'' @
     [0x000A] @ js ''- Do not apply any compression, filters, or color changes to the subject.'' @
     [0x000A] @ js ''- The output must be a PNG file with a fully transparent background.'' @
     [0x000A]"

text \<open>
  What the program cannot compute by itself is a parameter: the outcome of
  \<^verbatim>\<open>fileToDataUrl\<close> (\<^verbatim>\<open>utils/fileUtils\<close>), the outcome of
  \<^verbatim>\<open>ai.models.generateContent\<close>, each either a thrown value (a rejected promise) or a
  result, and the message that the JavaScript engine gives to the \<^verbatim>\<open>TypeError\<close> of
  each access that line 46 can make on \<^verbatim>\<open>undefined\<close>. Of a \<^verbatim>\<open>File\<close> the program reads the declared
  type only; the name and the bytes are what the file reader sees.
\<close>

record File =
  fileType :: jsstring
  fileName :: jsstring
  fileBytes :: "8 word list"

datatype access = IndexOfUndefined | ContentOfUndefined | PartsOfUndefined | IterateUndefined

record environment =
  fileToDataUrl :: "File \<Rightarrow> thrown + jsstring"
  generateContent :: "request \<Rightarrow> thrown + response"
  typeErrorMessage :: "access \<Rightarrow> jsstring"

text \<open>The request of lines 24 to 44: the image part, the text part and the configuration.\<close>

definition buildRequest :: "dataUrlParts \<Rightarrow> request" where
  "buildRequest p =
     (let imagePart = \<lparr>inlineData = Some \<lparr>data = base64Data p, blobMimeType = mimeType p\<rparr>,
                        partText = None\<rparr>;
          textPart = \<lparr>inlineData = None, partText = Some PROMPT\<rparr>
      in \<lparr>requestModel = model,
          contents = \<lparr>parts = Some [imagePart, textPart]\<rparr>,
          requestConfig = \<lparr>responseModalities = [IMAGE, TEXT]\<rparr>\<rparr>)"

text \<open>
  The loop of lines 46 to 50: the data of the first part that has \<^verbatim>\<open>inlineData\<close>, or
  \<open>None\<close> when the loop ends without returning.
\<close>

fun scanParts :: "part list \<Rightarrow> jsstring option" where
  "scanParts [] = None"
| "scanParts (p # ps) =
     (case inlineData p of
        Some b \<Rightarrow> Some (data b)
      | None \<Rightarrow> scanParts ps)"

text \<open>A value inside a template literal: \<^verbatim>\<open>undefined\<close> is printed as such.\<close>

definition template :: "jsstring option \<Rightarrow> jsstring" where
  "template v = (case v of None \<Rightarrow> js ''undefined'' | Some s \<Rightarrow> s)"

text \<open>
  The body of the \<^verbatim>\<open>try\<close> block, lines 36 to 57. Line 46 reads
  \<^verbatim>\<open>response.candidates[0].content.parts\<close> without a guard and iterates over it: where
  one of them is \<^verbatim>\<open>undefined\<close>, the engine throws a \<^verbatim>\<open>TypeError\<close>, which is an
  \<^verbatim>\<open>Error\<close>. Line 53 is reached with the first candidate present.
\<close>

definition tryBlock :: "environment \<Rightarrow> request \<Rightarrow> thrown + jsstring" where
  "tryBlock env req =
     (case generateContent env req of
        Inl e \<Rightarrow> Inl e
      | Inr response \<Rightarrow>
          (case candidates response of
             None \<Rightarrow> Inl (Error (typeErrorMessage env IndexOfUndefined))
           | Some [] \<Rightarrow> Inl (Error (typeErrorMessage env ContentOfUndefined))
           | Some (c # _) \<Rightarrow>
               (case content c of
                  None \<Rightarrow> Inl (Error (typeErrorMessage env PartsOfUndefined))
                | Some ct \<Rightarrow>
                    (case parts ct of
                       None \<Rightarrow> Inl (Error (typeErrorMessage env IterateUndefined))
                     | Some ps \<Rightarrow>
                         (case scanParts ps of
                            Some d \<Rightarrow> Inr d
                          | None \<Rightarrow>
                              if finishReason c \<noteq> Some (js ''STOP'')
                              then Inl (Error (js ''Processing was stopped due to: '' @
                                               template (finishReason c) @
                                               js ''. Please try a different image.''))
                              else Inl (Error (js ''No image data found in the API response.'')))))))"

text \<open>The \<^verbatim>\<open>catch\<close> clause, lines 59 to 65.\<close>

definition catchBlock :: "thrown + jsstring \<Rightarrow> thrown + jsstring" where
  "catchBlock r =
     (case r of
        Inr v \<Rightarrow> Inr v
      | Inl (Error message) \<Rightarrow> Inl (Error (js ''API Error: '' @ message))
      | Inl NonError \<Rightarrow>
          Inl (Error (js ''An unknown error occurred while communicating with the API.'')))"

text \<open>
  \<^verbatim>\<open>removeImageBackground\<close>: the outcome of the promise and the requests that were
  handed to the remote service. \<^verbatim>\<open>parseDataUrl\<close> runs before the \<^verbatim>\<open>try\<close> block.
\<close>

definition removeImageBackground ::
  "environment \<Rightarrow> jsstring \<Rightarrow> (thrown + jsstring) \<times> request list" where
  "removeImageBackground env dataUrl =
     (case parseDataUrl dataUrl of
        Inl e \<Rightarrow> (Inl e, [])
      | Inr p \<Rightarrow> (catchBlock (tryBlock env (buildRequest p)), [buildRequest p]))"

section \<open>App.tsx\<close>

datatype AppState = idle | processing | success | error

text \<open>
  The four state variables of the component, and the value of the hidden file input
  behind \<^verbatim>\<open>fileInputRef\<close> (\<open>None\<close> while the reference is \<^verbatim>\<open>null\<close>).
\<close>

record app =
  originalImage :: "jsstring option"
  processedImage :: "jsstring option"
  appState :: AppState
  errorMessage :: jsstring
  fileInputValue :: "jsstring option"

definition initialApp :: app where
  "initialApp =
     \<lparr>originalImage = None, processedImage = None, appState = idle,
      errorMessage = js '''', fileInputValue = Some (js '''')\<rparr>"

text \<open>The \<^verbatim>\<open>catch\<close> clause of \<^verbatim>\<open>processFile\<close>, lines 42 to 48.\<close>

definition processFileCatch :: "thrown \<Rightarrow> app \<Rightarrow> app" where
  "processFileCatch err st =
     (let message = (case err of Error m \<Rightarrow> m | NonError \<Rightarrow> js ''An unknown error occurred.'')
      in st\<lparr>errorMessage := js ''Failed to process image. '' @ message,
            appState := error,
            originalImage := None\<rparr>)"

text \<open>
  Lines 30 to 32: the state in which an accepted file waits for the file reader and
  for the remote service.
\<close>

definition processFileStart :: "app \<Rightarrow> app" where
  "processFileStart st = st\<lparr>appState := processing, processedImage := None, errorMessage := js ''''\<rparr>"

text \<open>
  \<^verbatim>\<open>processFile\<close>, from the call to the settling of its promise: the state of the
  component at the end and the requests handed to the remote service on the way.
\<close>

definition processFile :: "environment \<Rightarrow> File \<Rightarrow> app \<Rightarrow> app \<times> request list" where
  "processFile env f st =
     (if \<not> startsWith (fileType f) (js ''image/'')
      then (st\<lparr>errorMessage := js ''Please upload a valid image file.'',
               appState := error\<rparr>, [])
      else
        let st1 = processFileStart st
        in (case fileToDataUrl env f of
              Inl err \<Rightarrow> (processFileCatch err st1, [])
            | Inr dataUrl \<Rightarrow>
                let st2 = st1\<lparr>originalImage := Some dataUrl\<rparr>;
                    (r, sent) = removeImageBackground env dataUrl
                in (case r of
                      Inl err \<Rightarrow> (processFileCatch err st2, sent)
                    | Inr resultBase64 \<Rightarrow>
                        (st2\<lparr>processedImage := Some (js ''data:image/png;base64,'' @ resultBase64),
                             appState := success\<rparr>, sent))))"

text \<open>\<^verbatim>\<open>handleFileChange\<close>: the first file of the input, if there is one.\<close>

definition handleFileChange :: "environment \<Rightarrow> File list \<Rightarrow> app \<Rightarrow> app \<times> request list" where
  "handleFileChange env files st =
     (case files of
        [] \<Rightarrow> (st, [])
      | f # _ \<Rightarrow> processFile env f st)"

text \<open>\<^verbatim>\<open>handleDrop\<close>: a drop is ignored while a request is in flight.\<close>

definition handleDrop :: "environment \<Rightarrow> File list \<Rightarrow> app \<Rightarrow> app \<times> request list" where
  "handleDrop env files st =
     (if appState st = processing then (st, [])
      else (case files of
              [] \<Rightarrow> (st, [])
            | f # _ \<Rightarrow> processFile env f st))"

definition handleReset :: "app \<Rightarrow> app" where
  "handleReset st =
     (let st1 = st\<lparr>originalImage := None, processedImage := None, appState := idle,
                   errorMessage := js ''''\<rparr>
      in (case fileInputValue st1 of
            None \<Rightarrow> st1
          | Some _ \<Rightarrow> st1\<lparr>fileInputValue := Some (js '''')\<rparr>))"

text \<open>
  A call of \<^verbatim>\<open>processFile\<close> is suspended twice: at line 35, until the file reader
  settles, and at line 38, until \<^verbatim>\<open>removeImageBackground\<close> settles. In between, the
  component handles other events. A suspended call is a continuation: it waits for the
  data URL of a file, or for the result of \<^verbatim>\<open>removeImageBackground\<close> on a data URL.
\<close>

datatype pending = AwaitFile File | AwaitRemote jsstring

text \<open>
  Lines 25 to 35: \<^verbatim>\<open>processFile\<close> from its call to the first \<^verbatim>\<open>await\<close>, with the
  continuation it leaves, if any.
\<close>

definition processFileBegin :: "File \<Rightarrow> app \<Rightarrow> app \<times> pending list" where
  "processFileBegin f st =
     (if \<not> startsWith (fileType f) (js ''image/'')
      then (st\<lparr>errorMessage := js ''Please upload a valid image file.'',
               appState := error\<rparr>, [])
      else (processFileStart st, [AwaitFile f]))"

text \<open>
  Lines 35 to 38: the continuation once the file reader has settled. A data URL that
  \<^verbatim>\<open>parseDataUrl\<close> refuses makes \<^verbatim>\<open>removeImageBackground\<close> fail before it waits for
  anything, so the \<^verbatim>\<open>catch\<close> clause runs in the same turn of the event loop.
\<close>

definition processFileRead :: "environment \<Rightarrow> File \<Rightarrow> app \<Rightarrow> app \<times> pending list" where
  "processFileRead env f st =
     (case fileToDataUrl env f of
        Inl err \<Rightarrow> (processFileCatch err st, [])
      | Inr dataUrl \<Rightarrow>
          let st2 = st\<lparr>originalImage := Some dataUrl\<rparr>
          in (case parseDataUrl dataUrl of
                Inl err \<Rightarrow> (processFileCatch err st2, [])
              | Inr p \<Rightarrow> (st2, [AwaitRemote dataUrl])))"

text \<open>Lines 38 to 48: the continuation once \<^verbatim>\<open>removeImageBackground\<close> has settled.\<close>

definition processFileSettled :: "thrown + jsstring \<Rightarrow> app \<Rightarrow> app" where
  "processFileSettled r st =
     (case r of
        Inl err \<Rightarrow> processFileCatch err st
      | Inr resultBase64 \<Rightarrow>
          st\<lparr>processedImage := Some (js ''data:image/png;base64,'' @ resultBase64),
             appState := success\<rparr>)"

text \<open>
  The component at run time: the state variables, the suspended calls of
  \<^verbatim>\<open>processFile\<close>, and a record of what \<^verbatim>\<open>removeImageBackground\<close> has returned so
  far, the latest first, each result with the data URL it was returned for.
\<close>

record world =
  ui :: app
  inflight :: "pending list"
  returned :: "(jsstring \<times> jsstring) list"

text \<open>
  The states the component reaches. A file is selected or dropped (a drop passes the
  guard of line 58 only while the state is not \<^verbatim>\<open>processing\<close>), the reset button is
  pressed, the file reader settles for a suspended call, or
  \<^verbatim>\<open>removeImageBackground\<close> settles for one, in any order and with any outcome of the
  file reader and of the remote service.
\<close>

inductive reachable :: "world \<Rightarrow> bool" where
  initial: "reachable \<lparr>ui = initialApp, inflight = [], returned = []\<rparr>"
| fileChange:
    "reachable w \<Longrightarrow>
     reachable (w\<lparr>ui := fst (processFileBegin f (ui w)),
                inflight := snd (processFileBegin f (ui w)) @ inflight w\<rparr>)"
| drop:
    "reachable w \<Longrightarrow> appState (ui w) \<noteq> processing \<Longrightarrow>
     reachable (w\<lparr>ui := fst (processFileBegin f (ui w)),
                inflight := snd (processFileBegin f (ui w)) @ inflight w\<rparr>)"
| reset: "reachable w \<Longrightarrow> reachable (w\<lparr>ui := handleReset (ui w)\<rparr>)"
| fileRead:
    "reachable w \<Longrightarrow> AwaitFile f \<in> set (inflight w) \<Longrightarrow>
     reachable (w\<lparr>ui := fst (processFileRead env f (ui w)),
                inflight := snd (processFileRead env f (ui w)) @
                            remove1 (AwaitFile f) (inflight w)\<rparr>)"
| settled:
    "reachable w \<Longrightarrow> AwaitRemote dataUrl \<in> set (inflight w) \<Longrightarrow>
     reachable (w\<lparr>ui := processFileSettled (fst (removeImageBackground env dataUrl)) (ui w),
                inflight := remove1 (AwaitRemote dataUrl) (inflight w),
                returned := (case fst (removeImageBackground env dataUrl) of
                               Inl err \<Rightarrow> returned w
                             | Inr resultBase64 \<Rightarrow> (dataUrl, resultBase64) # returned w)\<rparr>)"

section \<open>The matcher: what the pattern accepts and what it captures\<close>

lemma backtrack_None:
  "backtrack k s n = None \<longleftrightarrow> (\<forall>m. 1 \<le> m \<and> m \<le> n \<longrightarrow> k (drop m s) = None)"
proof (induction n)
  case 0
  show ?case by simp
next
  case (Suc n)
  show ?case
  proof (cases "k (drop (Suc n) s)")
    case None
    have "(\<forall>m. 1 \<le> m \<and> m \<le> Suc n \<longrightarrow> k (drop m s) = None) \<longleftrightarrow>
          (\<forall>m. 1 \<le> m \<and> m \<le> n \<longrightarrow> k (drop m s) = None)"
      using None by (metis le_Suc_eq)
    with None Suc show ?thesis by simp
  next
    case (Some r)
    then show ?thesis by auto
  qed
qed

lemma backtrack_Some:
  "backtrack k s n = Some (a, r) \<longleftrightarrow>
     (\<exists>m. 1 \<le> m \<and> m \<le> n \<and> a = take m s \<and> k (drop m s) = Some r \<and>
          (\<forall>j. m < j \<and> j \<le> n \<longrightarrow> k (drop j s) = None))"
proof (induction n)
  case 0
  show ?case by simp
next
  case (Suc n)
  show ?case
  proof (cases "k (drop (Suc n) s)")
    case None
    have "(\<exists>m. 1 \<le> m \<and> m \<le> Suc n \<and> a = take m s \<and> k (drop m s) = Some r \<and>
             (\<forall>j. m < j \<and> j \<le> Suc n \<longrightarrow> k (drop j s) = None)) \<longleftrightarrow>
          (\<exists>m. 1 \<le> m \<and> m \<le> n \<and> a = take m s \<and> k (drop m s) = Some r \<and>
             (\<forall>j. m < j \<and> j \<le> n \<longrightarrow> k (drop j s) = None))"
      (is "?L \<longleftrightarrow> ?R")
    proof
      assume ?L
      then obtain m where m: "1 \<le> m" "m \<le> Suc n" "a = take m s" "k (drop m s) = Some r"
        "\<forall>j. m < j \<and> j \<le> Suc n \<longrightarrow> k (drop j s) = None" by blast
      from m(4) None have "m \<noteq> Suc n" by auto
      with m(2) have "m \<le> n" by simp
      with m show ?R by auto
    next
      assume ?R
      then obtain m where m: "1 \<le> m" "m \<le> n" "a = take m s" "k (drop m s) = Some r"
        "\<forall>j. m < j \<and> j \<le> n \<longrightarrow> k (drop j s) = None" by blast
      have "\<forall>j. m < j \<and> j \<le> Suc n \<longrightarrow> k (drop j s) = None"
        using m(5) None by (metis le_Suc_eq)
      moreover from m(2) have "m \<le> Suc n" by simp
      ultimately show ?L using m(1,3,4) by blast
    qed
    with None Suc show ?thesis by simp
  next
    case (Some r')
    have "(\<exists>m. 1 \<le> m \<and> m \<le> Suc n \<and> a = take m s \<and> k (drop m s) = Some r \<and>
             (\<forall>j. m < j \<and> j \<le> Suc n \<longrightarrow> k (drop j s) = None)) \<longleftrightarrow>
          (a = take (Suc n) s \<and> r' = r)"
      (is "?L \<longleftrightarrow> ?R")
    proof
      assume ?L
      then obtain m where m: "1 \<le> m" "m \<le> Suc n" "a = take m s" "k (drop m s) = Some r"
        "\<forall>j. m < j \<and> j \<le> Suc n \<longrightarrow> k (drop j s) = None" by blast
      have "m = Suc n"
      proof (rule ccontr)
        assume "m \<noteq> Suc n"
        with m(2) have "m < Suc n" by simp
        with m(5) have "k (drop (Suc n) s) = None" by blast
        with Some show False by simp
      qed
      with m Some show ?R by simp
    next
      assume ?R
      with Some show ?L by (intro exI [of _ "Suc n"]) auto
    qed
    with Some show ?thesis by auto
  qed
qed

lemma dotPlus_endOfInput:
  "dotPlus endOfInput t = (if t \<noteq> [] \<and> (\<forall>c\<in>set t. dot c) then Some (t, ()) else None)"
proof (cases "t \<noteq> [] \<and> (\<forall>c\<in>set t. dot c)")
  case True
  then have n: "length (takeWhile dot t) = length t" by (simp add: takeWhile_eq_all_conv [THEN iffD2])
  from True have "1 \<le> length t" by (cases t) auto
  then have "backtrack endOfInput t (length t) = Some (t, ())"
    unfolding backtrack_Some by (intro exI [of _ "length t"]) (simp add: endOfInput_def)
  with True n show ?thesis by (simp add: dotPlus_def)
next
  case False
  have "backtrack endOfInput t (length (takeWhile dot t)) = None"
    unfolding backtrack_None
  proof (intro allI impI)
    fix m assume m: "1 \<le> m \<and> m \<le> length (takeWhile dot t)"
    then have "t \<noteq> []" by auto
    with False have "\<not> (\<forall>c\<in>set t. dot c)" by simp
    then have "takeWhile dot t \<noteq> t" by (simp add: takeWhile_eq_all_conv)
    then have "length (takeWhile dot t) < length t"
      by (metis length_takeWhile_le le_neq_implies_less takeWhile_eq_take take_all_iff order_refl)
    with m have "m < length t" by simp
    then show "endOfInput (drop m t) = None" by (simp add: endOfInput_def)
  qed
  with False show ?thesis by (simp add: dotPlus_def)
qed

lemma literal_Some:
  "literal l k u = Some x \<longleftrightarrow> (\<exists>v. u = l @ v \<and> k v = Some x)"
proof
  assume "literal l k u = Some x"
  then have a: "take (length l) u = l" and b: "k (drop (length l) u) = Some x"
    by (auto simp: literal_def startsWith_def split: if_splits)
  from a have "u = l @ drop (length l) u" by (metis append_take_drop_id)
  with b show "\<exists>v. u = l @ v \<and> k v = Some x" by blast
next
  assume "\<exists>v. u = l @ v \<and> k v = Some x"
  then show "literal l k u = Some x" by (auto simp: literal_def startsWith_def)
qed

lemma tail_Some:
  "literal l (dotPlus endOfInput) u = Some x \<longleftrightarrow>
     (\<exists>p. x = (p, ()) \<and> u = l @ p \<and> p \<noteq> [] \<and> (\<forall>c\<in>set p. dot c))"
  unfolding literal_Some dotPlus_endOfInput by auto

lemma semicolon_once:
  assumes eq: "js '';base64,'' = us @ v # vs" and ne: "us \<noteq> []"
  shows "v \<noteq> of_char CHR '';''"
proof -
  from ne obtain u us' where us: "us = u # us'" by (cases us) auto
  with eq have "js ''base64,'' = us' @ v # vs" by (simp add: js_def)
  then have "v \<in> set (js ''base64,'')" by (metis in_set_conv_decomp)
  then show ?thesis by (auto simp: js_def)
qed

lemma dot_separator: "\<forall>c\<in>set (js '';base64,''). dot c"
  by (simp add: js_def dot_def lineTerminator_def)

lemma separator_overlap:
  assumes eq: "T @ js '';base64,'' @ P = T' @ js '';base64,'' @ P'"
    and len: "length T < length T'"
  shows "\<exists>u. P = u @ js '';base64,'' @ P'"
proof -
  from eq obtain us where
    "(T = T' @ us \<and> us @ js '';base64,'' @ P = js '';base64,'' @ P') \<or>
     (T @ us = T' \<and> js '';base64,'' @ P = us @ js '';base64,'' @ P')"
    unfolding append_eq_append_conv2 by blast
  with len have us: "T @ us = T'" "js '';base64,'' @ P = us @ js '';base64,'' @ P'"
    by auto
  from us(1) len have ne: "us \<noteq> []" by auto
  from us(2) obtain ws where
    ws: "(js '';base64,'' = us @ ws \<and> ws @ P = js '';base64,'' @ P') \<or>
         (js '';base64,'' @ ws = us \<and> P = ws @ js '';base64,'' @ P')"
    unfolding append_eq_append_conv2 by blast
  show ?thesis
  proof (cases ws)
    case Nil
    with ws show ?thesis by auto
  next
    case (Cons v vs)
    show ?thesis
    proof (rule disjE [OF ws])
      assume a: "js '';base64,'' = us @ ws \<and> ws @ P = js '';base64,'' @ P'"
      with Cons have "v # vs @ P = js '';base64,'' @ P'" by simp
      then have "v = of_char CHR '';''" by (simp add: js_def)
      moreover from a Cons ne have "v \<noteq> of_char CHR '';''"
        using semicolon_once [of us v vs] by simp
      ultimately show ?thesis by simp
    next
      assume "js '';base64,'' @ ws = us \<and> P = ws @ js '';base64,'' @ P'"
      then show ?thesis by blast
    qed
  qed
qed

lemma literal_append [simp]: "literal l k (l @ v) = k v"
  by (simp add: literal_def startsWith_def)

lemma takeWhile_dot_all: "\<forall>c\<in>set r. dot c \<Longrightarrow> length (takeWhile dot r) = length r"
  by (simp add: takeWhile_eq_all_conv [THEN iffD2])

lemma regex_complete:
  assumes T: "T \<noteq> []" "\<forall>c\<in>set T. dot c"
    and P: "P \<noteq> []" "\<forall>c\<in>set P. dot c"
    and noInner: "\<not> (\<exists>u v. v \<noteq> [] \<and> P = u @ js '';base64,'' @ v)"
  shows "dataUrlRegex (js ''data:'' @ T @ js '';base64,'' @ P) = Some (T, P, ())"
proof -
  let ?sep = "js '';base64,''"
  let ?K = "literal ?sep (dotPlus endOfInput)"
  let ?r = "T @ ?sep @ P"
  have dots: "\<forall>c\<in>set ?r. dot c" using T(2) P(2) dot_separator by auto
  have here: "?K (drop (length T) ?r) = Some (P, ())"
    using P by (simp add: dotPlus_endOfInput)
  have later: "?K (drop j ?r) = None" if j: "length T < j" for j
  proof (rule ccontr)
    assume "?K (drop j ?r) \<noteq> None"
    then obtain x where "?K (drop j ?r) = Some x" by auto
    then obtain p where p: "drop j ?r = ?sep @ p" "p \<noteq> []"
      unfolding tail_Some by blast
    define T' where "T' = take j ?r"
    from p have "j < length ?r" by (metis drop_eq_Nil2 append_is_Nil_conv not_le)
    then have lenj: "length T' = j" by (simp add: T'_def)
    have eq: "T @ ?sep @ P = T' @ ?sep @ p"
      unfolding T'_def using p(1) by (metis append_take_drop_id)
    have "length T < length T'" using j lenj by simp
    then have "\<exists>u. P = u @ ?sep @ p" by (rule separator_overlap [OF eq])
    with p(2) noInner show False by blast
  qed
  have "backtrack ?K ?r (length ?r) = Some (T, P, ())"
    unfolding backtrack_Some
  proof (intro exI [of _ "length T"] conjI allI impI)
    show "1 \<le> length T" using T(1) by (cases T) auto
    show "length T \<le> length ?r" by simp
    show "T = take (length T) ?r" by simp
    show "?K (drop (length T) ?r) = Some (P, ())" by (rule here)
    show "?K (drop j ?r) = None" if "length T < j \<and> j \<le> length ?r" for j
      using that later by blast
  qed
  then have "dotPlus ?K ?r = Some (T, P, ())"
    using takeWhile_dot_all [OF dots] by (simp add: dotPlus_def)
  then show ?thesis by (simp add: dataUrlRegex_def)
qed

lemma regex_sound:
  assumes m: "dataUrlRegex s = Some (T, P, u)"
  shows "s = js ''data:'' @ T @ js '';base64,'' @ P \<and>
         T \<noteq> [] \<and> (\<forall>c\<in>set T. dot c) \<and> P \<noteq> [] \<and> (\<forall>c\<in>set P. dot c) \<and>
         \<not> (\<exists>u v. v \<noteq> [] \<and> P = u @ js '';base64,'' @ v)"
proof -
  let ?sep = "js '';base64,''"
  let ?K = "literal ?sep (dotPlus endOfInput)"
  from m obtain r where s: "s = js ''data:'' @ r" and r: "dotPlus ?K r = Some (T, P, u)"
    unfolding dataUrlRegex_def literal_Some by blast
  let ?n = "length (takeWhile dot r)"
  from r obtain k where k: "1 \<le> k" "k \<le> ?n" "T = take k r" "?K (drop k r) = Some (P, u)"
    and last: "\<forall>j. k < j \<and> j \<le> ?n \<longrightarrow> ?K (drop j r) = None"
    unfolding dotPlus_def backtrack_Some by blast
  from k(4) have P: "drop k r = ?sep @ P" "P \<noteq> []" "\<forall>c\<in>set P. dot c"
    unfolding tail_Some by auto
  have req: "r = T @ ?sep @ P" using k(3) P(1) by (metis append_take_drop_id)
  have nr: "?n \<le> length r" by (rule length_takeWhile_le)
  with k(1,2,3) have T1: "T \<noteq> []" by auto
  have "take k r = take k (takeWhile dot r)"
    using k(2) by (metis takeWhile_dropWhile_id take_append diff_is_0_eq take_0 append_Nil2)
  then have "set T \<subseteq> set (takeWhile dot r)" using k(3) by (metis set_take_subset)
  then have T2: "\<forall>c\<in>set T. dot c" by (auto dest: set_takeWhileD)
  have dots: "\<forall>c\<in>set r. dot c" using req T2 P(3) dot_separator by auto
  have n: "?n = length r" by (rule takeWhile_dot_all [OF dots])
  have lenT: "length T = k" using k(2,3) nr by simp
  have noInner: "\<not> (\<exists>u v. v \<noteq> [] \<and> P = u @ ?sep @ v)"
  proof
    assume "\<exists>u v. v \<noteq> [] \<and> P = u @ ?sep @ v"
    then obtain a v where v: "v \<noteq> []" "P = a @ ?sep @ v" by blast
    let ?j = "length (T @ ?sep @ a)"
    have "r = (T @ ?sep @ a) @ ?sep @ v" using req v(2) by simp
    then have dj: "drop ?j r = ?sep @ v" by (metis append_eq_conv_conj)
    have "\<forall>c\<in>set v. dot c" using P(3) v(2) by auto
    with v(1) dj have "?K (drop ?j r) = Some (v, ())"
      by (simp add: dotPlus_endOfInput)
    moreover have "k < ?j" using lenT by (simp add: js_def)
    moreover have "?j \<le> ?n" using n req v(2) by simp
    ultimately show False using last by fastforce
  qed
  from s req T1 T2 P noInner show ?thesis by blast
qed

lemma regex_accepts:
  assumes "T \<noteq> []" "P \<noteq> []" "\<forall>c\<in>set (T @ P). dot c"
  shows "dataUrlRegex (js ''data:'' @ T @ js '';base64,'' @ P) \<noteq> None"
proof -
  let ?sep = "js '';base64,''"
  let ?K = "literal ?sep (dotPlus endOfInput)"
  let ?r = "T @ ?sep @ P"
  have dots: "\<forall>c\<in>set ?r. dot c" using assms(3) dot_separator by auto
  have here: "?K (drop (length T) ?r) \<noteq> None"
    using assms by (simp add: dotPlus_endOfInput)
  have T1: "1 \<le> length T" using assms(1) by (cases T) auto
  have "backtrack ?K ?r (length ?r) \<noteq> None"
  proof
    assume "backtrack ?K ?r (length ?r) = None"
    then have "\<forall>m. 1 \<le> m \<and> m \<le> length ?r \<longrightarrow> ?K (drop m ?r) = None"
      by (simp only: backtrack_None)
    then have "1 \<le> length T \<and> length T \<le> length ?r \<longrightarrow> ?K (drop (length T) ?r) = None"
      by (rule spec)
    with T1 here show False by simp
  qed
  then have "dotPlus ?K ?r \<noteq> None"
    using takeWhile_dot_all [OF dots] by (simp add: dotPlus_def)
  then show ?thesis by (simp add: dataUrlRegex_def)
qed

section \<open>parseDataUrl\<close>

lemma no_semicolon_no_separator:
  "of_char CHR '';'' \<notin> set X \<Longrightarrow> \<not> (\<exists>u v. X = u @ js '';base64,'' @ v)"
  by (auto simp: js_def)

lemma parseDataUrl_Inr_iff:
  "parseDataUrl s = Inr \<lparr>base64Data = P, mimeType = T\<rparr> \<longleftrightarrow> dataUrlRegex s = Some (T, P, ())"
  by (auto simp: parseDataUrl_def split: option.splits)

lemma parseDataUrl_Inl_iff:
  "parseDataUrl s = Inl e \<longleftrightarrow> e = Error (js ''Invalid data URL format'') \<and> dataUrlRegex s = None"
  by (auto simp: parseDataUrl_def split: option.splits)

lemma parseDataUrl_shape_accepted:
  assumes "T \<noteq> []" "P \<noteq> []" "\<forall>c\<in>set (T @ P). \<not> lineTerminator c"
  shows "\<exists>T' P'. parseDataUrl (js ''data:'' @ T @ js '';base64,'' @ P) =
           Inr \<lparr>base64Data = P', mimeType = T'\<rparr>"
proof -
  from assms have "dataUrlRegex (js ''data:'' @ T @ js '';base64,'' @ P) \<noteq> None"
    by (intro regex_accepts) (auto simp: dot_def)
  then show ?thesis by (auto simp: parseDataUrl_def split: option.splits)
qed

text \<open>
  Claim C1. For every input of the exact form \<^verbatim>\<open>data:T;base64,P\<close>, \<^verbatim>\<open>parseDataUrl\<close> returns
  the pair of \<open>T\<close> and \<open>P\<close> unchanged, and every string that is not of that shape is
  rejected with the error \<^verbatim>\<open>Invalid data URL format\<close>. The shape is the pattern's:
  \<open>T\<close> and \<open>P\<close> are not empty and hold no line terminator. For the pair to come back
  unchanged, \<open>P\<close> holds no further \<^verbatim>\<open>;base64,\<close> with a code unit after it, which is so
  for every base64 payload, whose alphabet has no semicolon. No string of the shape is
  rejected, by \<open>parseDataUrl_shape_accepted\<close>.
\<close>

theorem parseDataUrl_exact_form:
  "(\<forall>T P. T \<noteq> [] \<and> P \<noteq> [] \<and> (\<forall>c\<in>set (T @ P). \<not> lineTerminator c) \<and>
          \<not> (\<exists>u v. v \<noteq> [] \<and> P = u @ js '';base64,'' @ v) \<longrightarrow>
      parseDataUrl (js ''data:'' @ T @ js '';base64,'' @ P) =
        Inr \<lparr>base64Data = P, mimeType = T\<rparr>) \<and>
   (\<forall>s. \<not> (\<exists>T P. T \<noteq> [] \<and> P \<noteq> [] \<and> (\<forall>c\<in>set (T @ P). \<not> lineTerminator c) \<and>
              s = js ''data:'' @ T @ js '';base64,'' @ P) \<longrightarrow>
      parseDataUrl s = Inl (Error (js ''Invalid data URL format'')))"
proof (intro conjI allI impI)
  fix T P :: jsstring
  assume h: "T \<noteq> [] \<and> P \<noteq> [] \<and> (\<forall>c\<in>set (T @ P). \<not> lineTerminator c) \<and>
          \<not> (\<exists>u v. v \<noteq> [] \<and> P = u @ js '';base64,'' @ v)"
  then have "dataUrlRegex (js ''data:'' @ T @ js '';base64,'' @ P) = Some (T, P, ())"
    by (intro regex_complete) (auto simp: dot_def)
  then show "parseDataUrl (js ''data:'' @ T @ js '';base64,'' @ P) =
        Inr \<lparr>base64Data = P, mimeType = T\<rparr>"
    by (simp only: parseDataUrl_Inr_iff)
next
  fix s :: jsstring
  assume h: "\<not> (\<exists>T P. T \<noteq> [] \<and> P \<noteq> [] \<and> (\<forall>c\<in>set (T @ P). \<not> lineTerminator c) \<and>
              s = js ''data:'' @ T @ js '';base64,'' @ P)"
  have "dataUrlRegex s = None"
  proof (rule ccontr)
    assume "dataUrlRegex s \<noteq> None"
    then obtain T P u where "dataUrlRegex s = Some (T, P, u)" by (cases "dataUrlRegex s") auto
    from regex_sound [OF this] have
      "T \<noteq> [] \<and> P \<noteq> [] \<and> (\<forall>c\<in>set (T @ P). \<not> lineTerminator c) \<and>
       s = js ''data:'' @ T @ js '';base64,'' @ P"
      by (auto simp: dot_def)
    with h show False by blast
  qed
  then show "parseDataUrl s = Inl (Error (js ''Invalid data URL format''))"
    by (simp only: parseDataUrl_Inl_iff)
qed

theorem parseDataUrl_exact_form_witness:
  "parseDataUrl (js ''data:image/png;base64,iVBORw0KGgo='') =
     Inr \<lparr>base64Data = js ''iVBORw0KGgo='', mimeType = js ''image/png''\<rparr> \<and>
   parseDataUrl (js ''image/png;base64,iVBORw0KGgo='') = Inl (Error (js ''Invalid data URL format''))"
proof
  have a: "js ''image/png'' \<noteq> [] \<and> js ''iVBORw0KGgo='' \<noteq> [] \<and>
        (\<forall>c\<in>set (js ''image/png'' @ js ''iVBORw0KGgo=''). \<not> lineTerminator c) \<and>
        \<not> (\<exists>u v. v \<noteq> [] \<and> js ''iVBORw0KGgo='' = u @ js '';base64,'' @ v)"
    using no_semicolon_no_separator [of "js ''iVBORw0KGgo=''"]
    by (simp add: js_def lineTerminator_def)
  have b: "js ''data:image/png;base64,iVBORw0KGgo='' =
        js ''data:'' @ js ''image/png'' @ js '';base64,'' @ js ''iVBORw0KGgo=''"
    by (simp add: js_def)
  show "parseDataUrl (js ''data:image/png;base64,iVBORw0KGgo='') =
     Inr \<lparr>base64Data = js ''iVBORw0KGgo='', mimeType = js ''image/png''\<rparr>"
    using parseDataUrl_exact_form [THEN conjunct1, rule_format, OF a] b by simp
next
  have "\<not> (\<exists>T P. T \<noteq> [] \<and> P \<noteq> [] \<and> (\<forall>c\<in>set (T @ P). \<not> lineTerminator c) \<and>
              js ''image/png;base64,iVBORw0KGgo='' = js ''data:'' @ T @ js '';base64,'' @ P)"
    by (simp add: js_def)
  then show "parseDataUrl (js ''image/png;base64,iVBORw0KGgo='') =
      Inl (Error (js ''Invalid data URL format''))"
    using parseDataUrl_exact_form [THEN conjunct2, rule_format] by blast
qed

text \<open>
  Claim C8, as amended. \<^verbatim>\<open>parseDataUrl\<close> rejects \<^verbatim>\<open>data:;base64,P\<close> for every \<open>P\<close> that
  holds no further \<^verbatim>\<open>;base64,\<close> with a code unit after it, and \<^verbatim>\<open>data:T;base64,\<close> for
  every \<open>T\<close> that holds no \<^verbatim>\<open>;base64,\<close> with a code unit before it. Without the side
  conditions the claim fails: a greedy capture that finds one side empty gives code
  units back and splits the string at another \<^verbatim>\<open>;base64,\<close>, as the two inputs of
  the counterexample below show.
\<close>

theorem parseDataUrl_empty_part:
  "(\<forall>P. \<not> (\<exists>u v. v \<noteq> [] \<and> P = u @ js '';base64,'' @ v) \<longrightarrow>
      parseDataUrl (js ''data:'' @ js '';base64,'' @ P) = Inl (Error (js ''Invalid data URL format''))) \<and>
   (\<forall>T. \<not> (\<exists>u v. u \<noteq> [] \<and> T = u @ js '';base64,'' @ v) \<longrightarrow>
      parseDataUrl (js ''data:'' @ T @ js '';base64,'') = Inl (Error (js ''Invalid data URL format'')))"
proof (intro conjI allI impI)
  fix P :: jsstring
  assume h: "\<not> (\<exists>u v. v \<noteq> [] \<and> P = u @ js '';base64,'' @ v)"
  have "dataUrlRegex (js ''data:'' @ js '';base64,'' @ P) = None"
  proof (rule ccontr)
    assume "dataUrlRegex (js ''data:'' @ js '';base64,'' @ P) \<noteq> None"
    then obtain T' P' u where "dataUrlRegex (js ''data:'' @ js '';base64,'' @ P) = Some (T', P', u)"
      by (cases "dataUrlRegex (js ''data:'' @ js '';base64,'' @ P)") auto
    note rs = regex_sound [OF this]
    from rs have "js ''data:'' @ js '';base64,'' @ P = js ''data:'' @ T' @ js '';base64,'' @ P'"
      by (rule conjunct1)
    then have eq: "[] @ js '';base64,'' @ P = T' @ js '';base64,'' @ P'"
      by (simp only: same_append_eq append_Nil)
    from rs have ne: "T' \<noteq> []" "P' \<noteq> []" by blast+
    from ne(1) have "length ([] :: jsstring) < length T'" by simp
    from separator_overlap [OF eq this] ne(2) h show False by blast
  qed
  then show "parseDataUrl (js ''data:'' @ js '';base64,'' @ P) = Inl (Error (js ''Invalid data URL format''))"
    by (simp only: parseDataUrl_Inl_iff)
next
  fix T :: jsstring
  assume h: "\<not> (\<exists>u v. u \<noteq> [] \<and> T = u @ js '';base64,'' @ v)"
  have "dataUrlRegex (js ''data:'' @ T @ js '';base64,'') = None"
  proof (rule ccontr)
    assume "dataUrlRegex (js ''data:'' @ T @ js '';base64,'') \<noteq> None"
    then obtain T' P' u where "dataUrlRegex (js ''data:'' @ T @ js '';base64,'') = Some (T', P', u)"
      by (cases "dataUrlRegex (js ''data:'' @ T @ js '';base64,'')") auto
    note rs = regex_sound [OF this]
    from rs have "js ''data:'' @ T @ js '';base64,'' = js ''data:'' @ T' @ js '';base64,'' @ P'"
      by (rule conjunct1)
    then have eq: "T' @ js '';base64,'' @ P' = T @ js '';base64,'' @ []"
      by (simp only: same_append_eq append_Nil2)
    from rs have ne: "T' \<noteq> []" "P' \<noteq> []" by blast+
    from eq have "length (T' @ js '';base64,'' @ P') = length (T @ js '';base64,'' @ [])"
      by (rule arg_cong)
    then have "length T' + length P' = length T" by simp
    moreover from ne(2) have "0 < length P'" by simp
    ultimately have "length T' < length T" by arith
    from separator_overlap [OF eq this] obtain a where a: "P' = a @ js '';base64,''"
      by (auto simp only: append_Nil2)
    have "T @ js '';base64,'' = (T' @ js '';base64,'' @ a) @ js '';base64,''"
      using eq a by (simp only: append_assoc append_Nil2)
    then have "T = T' @ js '';base64,'' @ a" by (simp only: append_same_eq)
    with ne(1) h show False by blast
  qed
  then show "parseDataUrl (js ''data:'' @ T @ js '';base64,'') = Inl (Error (js ''Invalid data URL format''))"
    by (simp only: parseDataUrl_Inl_iff)
qed

theorem parseDataUrl_empty_part_witness:
  "parseDataUrl (js ''data:;base64,iVBORw0KGgo='') = Inl (Error (js ''Invalid data URL format'')) \<and>
   parseDataUrl (js ''data:image/png;base64,'') = Inl (Error (js ''Invalid data URL format''))"
proof
  have a: "\<not> (\<exists>u v. v \<noteq> [] \<and> js ''iVBORw0KGgo='' = u @ js '';base64,'' @ v)"
    using no_semicolon_no_separator [of "js ''iVBORw0KGgo=''"] by (simp add: js_def)
  have b: "js ''data:;base64,iVBORw0KGgo='' = js ''data:'' @ js '';base64,'' @ js ''iVBORw0KGgo=''"
    by (simp add: js_def)
  show "parseDataUrl (js ''data:;base64,iVBORw0KGgo='') = Inl (Error (js ''Invalid data URL format''))"
    using parseDataUrl_empty_part [THEN conjunct1, rule_format, OF a] b by simp
next
  have a: "\<not> (\<exists>u v. u \<noteq> [] \<and> js ''image/png'' = u @ js '';base64,'' @ v)"
    using no_semicolon_no_separator [of "js ''image/png''"] by (simp add: js_def)
  have b: "js ''data:image/png;base64,'' = js ''data:'' @ js ''image/png'' @ js '';base64,''"
    by (simp add: js_def)
  show "parseDataUrl (js ''data:image/png;base64,'') = Inl (Error (js ''Invalid data URL format''))"
    using parseDataUrl_empty_part [THEN conjunct2, rule_format, OF a] b by simp
qed

theorem parseDataUrl_empty_part_counterexample:
  "parseDataUrl (js ''data:'' @ [] @ js '';base64,'' @ js '';base64,x'') =
     Inr \<lparr>base64Data = js ''x'', mimeType = js '';base64,''\<rparr> \<and>
   parseDataUrl (js ''data:'' @ js ''a;base64,b'' @ js '';base64,'' @ []) =
     Inr \<lparr>base64Data = js ''b;base64,'', mimeType = js ''a''\<rparr>"
  by (simp add: parseDataUrl_def dataUrlRegex_def literal_def startsWith_def dotPlus_def
      endOfInput_def js_def dot_def lineTerminator_def)

section \<open>removeImageBackground\<close>

lemma scanParts_None: "scanParts ps = None \<longleftrightarrow> (\<forall>q\<in>set ps. inlineData q = None)"
  by (induction ps) (auto split: option.splits)

lemma scanParts_first:
  "\<forall>x\<in>set pre. inlineData x = None \<Longrightarrow> inlineData q = Some b \<Longrightarrow>
   scanParts (pre @ q # post) = Some (data b)"
  by (induction pre) auto

lemma parseDataUrl_example:
  "parseDataUrl (js ''data:image/png;base64,iVBORw0KGgo='') =
     Inr \<lparr>base64Data = js ''iVBORw0KGgo='', mimeType = js ''image/png''\<rparr>"
  by (simp add: parseDataUrl_def dataUrlRegex_def literal_def startsWith_def dotPlus_def
      endOfInput_def js_def dot_def lineTerminator_def)

lemma removeImageBackground_parsed:
  "parseDataUrl dataUrl = Inr p \<Longrightarrow>
   removeImageBackground env dataUrl = (catchBlock (tryBlock env (buildRequest p)), [buildRequest p])"
  by (simp add: removeImageBackground_def)

lemma tryBlock_no_payload:
  "generateContent env req = Inr response \<Longrightarrow> candidates response = Some (c # cs) \<Longrightarrow>
   content c = Some ct \<Longrightarrow> parts ct = Some ps \<Longrightarrow>
   \<forall>q\<in>set ps. inlineData q = None \<Longrightarrow>
   tryBlock env req =
     (if finishReason c \<noteq> Some (js ''STOP'')
      then Inl (Error (js ''Processing was stopped due to: '' @ template (finishReason c) @
                       js ''. Please try a different image.''))
      else Inl (Error (js ''No image data found in the API response.'')))"
  by (simp add: tryBlock_def scanParts_None [THEN iffD2])

text \<open>
  Where the first candidate of the response has content parts and none of them has an
  inline payload, the finish reason decides between the two failures of lines 53 to
  57, and the \<^verbatim>\<open>catch\<close> clause adds its prefix. An absent reason is printed
  \<^verbatim>\<open>undefined\<close>.
\<close>

lemma removeImageBackground_stopped:
  assumes "parseDataUrl dataUrl = Inr p"
    and "generateContent env (buildRequest p) = Inr response"
    and "candidates response = Some (c # cs)"
    and "content c = Some ct"
    and "parts ct = Some ps"
    and "\<forall>q\<in>set ps. inlineData q = None"
    and "finishReason c \<noteq> Some (js ''STOP'')"
  shows "fst (removeImageBackground env dataUrl) =
           Inl (Error (js ''API Error: Processing was stopped due to: '' @
                       (case finishReason c of Some reason \<Rightarrow> reason | None \<Rightarrow> js ''undefined'') @
                       js ''. Please try a different image.''))"
  using assms(7)
  by (simp add: removeImageBackground_parsed [OF assms(1)] tryBlock_no_payload [OF assms(2-6)]
      catchBlock_def template_def js_def split: option.splits)

lemma removeImageBackground_no_image:
  assumes "parseDataUrl dataUrl = Inr p"
    and "generateContent env (buildRequest p) = Inr response"
    and "candidates response = Some (c # cs)"
    and "content c = Some ct"
    and "parts ct = Some ps"
    and "\<forall>q\<in>set ps. inlineData q = None"
    and "finishReason c = Some (js ''STOP'')"
  shows "fst (removeImageBackground env dataUrl) =
           Inl (Error (js ''API Error: No image data found in the API response.'')) \<and>
         (\<forall>reason. fst (removeImageBackground env dataUrl) \<noteq>
           Inl (Error (js ''API Error: Processing was stopped due to: '' @ reason @
                       js ''. Please try a different image.'')))"
  using assms(7)
  by (simp add: removeImageBackground_parsed [OF assms(1)] tryBlock_no_payload [OF assms(2-6)]
      catchBlock_def js_def)

text \<open>
  Claim C2, at an input where the program departs from it. The response has one
  candidate with the finish reason \<^verbatim>\<open>SAFETY\<close> and no content, so it holds no inline
  payload and its finish reason is not \<^verbatim>\<open>STOP\<close>. Line 46 reads
  \<^verbatim>\<open>.content.parts\<close> without a guard: the engine throws a \<^verbatim>\<open>TypeError\<close>, the check of
  line 53 is never reached, and the message that leaves \<^verbatim>\<open>removeImageBackground\<close>
  is the engine's (here in the wording of Chrome and Node), without the finish reason.
\<close>

theorem removeImageBackground_without_content:
  "fst (removeImageBackground
          \<lparr>fileToDataUrl = (\<lambda>f. Inl NonError),
           generateContent = (\<lambda>req. Inr \<lparr>candidates = Some [\<lparr>content = None, finishReason = Some (js ''SAFETY'')\<rparr>]\<rparr>),
           typeErrorMessage =
             (\<lambda>a. case a of
               IndexOfUndefined \<Rightarrow> js ''Cannot read properties of undefined (reading '0')''
             | ContentOfUndefined \<Rightarrow> js ''Cannot read properties of undefined (reading 'content')''
             | PartsOfUndefined \<Rightarrow> js ''Cannot read properties of undefined (reading 'parts')''
             | IterateUndefined \<Rightarrow> js ''response.candidates[0].content.parts is not iterable'')\<rparr>
          (js ''data:image/png;base64,iVBORw0KGgo='')) =
     Inl (Error (js ''API Error: Cannot read properties of undefined (reading 'parts')'')) \<and>
   fst (removeImageBackground
          \<lparr>fileToDataUrl = (\<lambda>f. Inl NonError),
           generateContent = (\<lambda>req. Inr \<lparr>candidates = Some [\<lparr>content = None, finishReason = Some (js ''SAFETY'')\<rparr>]\<rparr>),
           typeErrorMessage =
             (\<lambda>a. case a of
               IndexOfUndefined \<Rightarrow> js ''Cannot read properties of undefined (reading '0')''
             | ContentOfUndefined \<Rightarrow> js ''Cannot read properties of undefined (reading 'content')''
             | PartsOfUndefined \<Rightarrow> js ''Cannot read properties of undefined (reading 'parts')''
             | IterateUndefined \<Rightarrow> js ''response.candidates[0].content.parts is not iterable'')\<rparr>
          (js ''data:image/png;base64,iVBORw0KGgo='')) \<noteq>
     Inl (Error (js ''API Error: Processing was stopped due to: SAFETY. Please try a different image.''))"
proof -
  have "fst (removeImageBackground
          \<lparr>fileToDataUrl = (\<lambda>f. Inl NonError),
           generateContent = (\<lambda>req. Inr \<lparr>candidates = Some [\<lparr>content = None, finishReason = Some (js ''SAFETY'')\<rparr>]\<rparr>),
           typeErrorMessage =
             (\<lambda>a. case a of
               IndexOfUndefined \<Rightarrow> js ''Cannot read properties of undefined (reading '0')''
             | ContentOfUndefined \<Rightarrow> js ''Cannot read properties of undefined (reading 'content')''
             | PartsOfUndefined \<Rightarrow> js ''Cannot read properties of undefined (reading 'parts')''
             | IterateUndefined \<Rightarrow> js ''response.candidates[0].content.parts is not iterable'')\<rparr>
          (js ''data:image/png;base64,iVBORw0KGgo='')) =
     Inl (Error (js ''API Error: '' @ js ''Cannot read properties of undefined (reading 'parts')''))"
    by (simp add: removeImageBackground_def parseDataUrl_example tryBlock_def catchBlock_def)
  then show ?thesis by (simp add: js_def)
qed

text \<open>
  Claim C3, at an input where the program departs from it. The response has one
  candidate with the finish reason \<^verbatim>\<open>STOP\<close> and a content without parts, so it holds
  no inline payload. The loop of line 46 iterates over \<^verbatim>\<open>undefined\<close>: the engine
  throws a \<^verbatim>\<open>TypeError\<close>, line 57 is never reached, and the message is the engine's
  and not the one of a missing image.
\<close>

theorem removeImageBackground_without_parts:
  "fst (removeImageBackground
          \<lparr>fileToDataUrl = (\<lambda>f. Inl NonError),
           generateContent = (\<lambda>req. Inr \<lparr>candidates = Some [\<lparr>content = Some \<lparr>parts = None\<rparr>, finishReason = Some (js ''STOP'')\<rparr>]\<rparr>),
           typeErrorMessage =
             (\<lambda>a. case a of
               IndexOfUndefined \<Rightarrow> js ''Cannot read properties of undefined (reading '0')''
             | ContentOfUndefined \<Rightarrow> js ''Cannot read properties of undefined (reading 'content')''
             | PartsOfUndefined \<Rightarrow> js ''Cannot read properties of undefined (reading 'parts')''
             | IterateUndefined \<Rightarrow> js ''response.candidates[0].content.parts is not iterable'')\<rparr>
          (js ''data:image/png;base64,iVBORw0KGgo='')) =
     Inl (Error (js ''API Error: response.candidates[0].content.parts is not iterable'')) \<and>
   fst (removeImageBackground
          \<lparr>fileToDataUrl = (\<lambda>f. Inl NonError),
           generateContent = (\<lambda>req. Inr \<lparr>candidates = Some [\<lparr>content = Some \<lparr>parts = None\<rparr>, finishReason = Some (js ''STOP'')\<rparr>]\<rparr>),
           typeErrorMessage =
             (\<lambda>a. case a of
               IndexOfUndefined \<Rightarrow> js ''Cannot read properties of undefined (reading '0')''
             | ContentOfUndefined \<Rightarrow> js ''Cannot read properties of undefined (reading 'content')''
             | PartsOfUndefined \<Rightarrow> js ''Cannot read properties of undefined (reading 'parts')''
             | IterateUndefined \<Rightarrow> js ''response.candidates[0].content.parts is not iterable'')\<rparr>
          (js ''data:image/png;base64,iVBORw0KGgo='')) \<noteq>
     Inl (Error (js ''API Error: No image data found in the API response.''))"
proof -
  have "fst (removeImageBackground
          \<lparr>fileToDataUrl = (\<lambda>f. Inl NonError),
           generateContent = (\<lambda>req. Inr \<lparr>candidates = Some [\<lparr>content = Some \<lparr>parts = None\<rparr>, finishReason = Some (js ''STOP'')\<rparr>]\<rparr>),
           typeErrorMessage =
             (\<lambda>a. case a of
               IndexOfUndefined \<Rightarrow> js ''Cannot read properties of undefined (reading '0')''
             | ContentOfUndefined \<Rightarrow> js ''Cannot read properties of undefined (reading 'content')''
             | PartsOfUndefined \<Rightarrow> js ''Cannot read properties of undefined (reading 'parts')''
             | IterateUndefined \<Rightarrow> js ''response.candidates[0].content.parts is not iterable'')\<rparr>
          (js ''data:image/png;base64,iVBORw0KGgo='')) =
     Inl (Error (js ''API Error: '' @ js ''response.candidates[0].content.parts is not iterable''))"
    by (simp add: removeImageBackground_def parseDataUrl_example tryBlock_def catchBlock_def)
  then show ?thesis by (simp add: js_def)
qed

text \<open>
  Claim C4. When the data URL parses and the remote call returns a response whose
  content parts include a part with an inline payload, \<^verbatim>\<open>removeImageBackground\<close>
  succeeds with the data of the first such part, in the order of the parts: the parts
  before it have no inline payload, the parts after it are not looked at.
\<close>

theorem removeImageBackground_first_inline_payload:
  assumes "parseDataUrl dataUrl = Inr p"
    and "generateContent env (buildRequest p) = Inr response"
    and "candidates response = Some (c # cs)"
    and "content c = Some ct"
    and "parts ct = Some (pre @ q # post)"
    and "\<forall>x\<in>set pre. inlineData x = None"
    and "inlineData q = Some b"
  shows "fst (removeImageBackground env dataUrl) = Inr (data b)"
  by (simp add: removeImageBackground_parsed [OF assms(1)] tryBlock_def assms(2-5)
      scanParts_first [OF assms(6,7)] catchBlock_def)

theorem removeImageBackground_first_inline_payload_witness:
  "fst (removeImageBackground
          \<lparr>fileToDataUrl = (\<lambda>f. Inl NonError),
           generateContent = (\<lambda>req. Inr \<lparr>candidates = Some
             [\<lparr>content = Some \<lparr>parts = Some
                 [\<lparr>inlineData = None, partText = Some (js ''Here is the image.'')\<rparr>,
                  \<lparr>inlineData = Some \<lparr>data = js ''QUJD'', blobMimeType = js ''image/png''\<rparr>,
                   partText = None\<rparr>,
                  \<lparr>inlineData = Some \<lparr>data = js ''REVG'', blobMimeType = js ''image/png''\<rparr>,
                   partText = None\<rparr>]\<rparr>,
               finishReason = Some (js ''STOP'')\<rparr>]\<rparr>),
           typeErrorMessage = (\<lambda>a. js ''undefined is not an object'')\<rparr>
          (js ''data:image/png;base64,iVBORw0KGgo='')) = Inr (js ''QUJD'')"
proof -
  let ?pre = "[\<lparr>inlineData = None, partText = Some (js ''Here is the image.'')\<rparr>]"
  let ?b = "\<lparr>data = js ''QUJD'', blobMimeType = js ''image/png''\<rparr>"
  let ?q = "\<lparr>inlineData = Some ?b, partText = None\<rparr>"
  let ?post = "[\<lparr>inlineData = Some \<lparr>data = js ''REVG'', blobMimeType = js ''image/png''\<rparr>,
                   partText = None\<rparr>]"
  let ?ct = "\<lparr>parts = Some (?pre @ ?q # ?post)\<rparr>"
  let ?c = "\<lparr>content = Some ?ct, finishReason = Some (js ''STOP'')\<rparr>"
  let ?response = "\<lparr>candidates = Some [?c]\<rparr>"
  let ?env = "\<lparr>fileToDataUrl = (\<lambda>f. Inl NonError),
           generateContent = (\<lambda>req. Inr ?response),
           typeErrorMessage = (\<lambda>a. js ''undefined is not an object'')\<rparr>"
  have call: "generateContent ?env (buildRequest
      \<lparr>base64Data = js ''iVBORw0KGgo='', mimeType = js ''image/png''\<rparr>) = Inr ?response"
    by simp
  have first: "candidates ?response = Some (?c # [])" by simp
  have ct: "content ?c = Some ?ct" by simp
  have ps: "parts ?ct = Some (?pre @ ?q # ?post)" by simp
  have none: "\<forall>x\<in>set ?pre. inlineData x = None" by simp
  have some: "inlineData ?q = Some ?b" by simp
  from removeImageBackground_first_inline_payload
    [OF parseDataUrl_example call first ct ps none some]
  show ?thesis by simp
qed

text \<open>
  Claim C10, as amended. A failure raised inside the \<^verbatim>\<open>try\<close> block that is an
  \<^verbatim>\<open>Error\<close> is thrown again with \<^verbatim>\<open>API Error: \<close> before its message. The failures
  of a response without inline payload are of that kind, and so is every failure
  raised once the response has arrived; a rejection of the remote call reaches the
  \<^verbatim>\<open>catch\<close> clause as it is. A thrown value that is not an \<^verbatim>\<open>Error\<close> is replaced by an
  error with a fixed message that has no such prefix, which is where the claim as
  stated fails. A malformed data URL throws \<^verbatim>\<open>Invalid data URL format\<close> without the
  prefix, before any request is made.
\<close>

theorem removeImageBackground_rethrow:
  "(parseDataUrl dataUrl = Inr p \<and> tryBlock env (buildRequest p) = Inl (Error message) \<longrightarrow>
      fst (removeImageBackground env dataUrl) = Inl (Error (js ''API Error: '' @ message))) \<and>
   (parseDataUrl dataUrl = Inr p \<and> tryBlock env (buildRequest p) = Inl NonError \<longrightarrow>
      fst (removeImageBackground env dataUrl) =
        Inl (Error (js ''An unknown error occurred while communicating with the API.''))) \<and>
   (generateContent env req = Inr response \<and> candidates response = Some (c # cs) \<and>
    content c = Some ct \<and> parts ct = Some ps \<and> (\<forall>q\<in>set ps. inlineData q = None) \<longrightarrow>
      (\<exists>m. tryBlock env req = Inl (Error m))) \<and>
   (generateContent env req = Inr response \<and> tryBlock env req = Inl e'' \<longrightarrow>
      (\<exists>m. e'' = Error m)) \<and>
   (generateContent env req = Inl e \<longrightarrow> tryBlock env req = Inl e) \<and>
   (parseDataUrl dataUrl = Inl e' \<longrightarrow>
      removeImageBackground env dataUrl = (Inl (Error (js ''Invalid data URL format'')), []))"
proof (intro conjI impI)
  assume "parseDataUrl dataUrl = Inr p \<and> tryBlock env (buildRequest p) = Inl (Error message)"
  then show "fst (removeImageBackground env dataUrl) = Inl (Error (js ''API Error: '' @ message))"
    by (simp add: removeImageBackground_def catchBlock_def)
next
  assume "parseDataUrl dataUrl = Inr p \<and> tryBlock env (buildRequest p) = Inl NonError"
  then show "fst (removeImageBackground env dataUrl) =
        Inl (Error (js ''An unknown error occurred while communicating with the API.''))"
    by (simp add: removeImageBackground_def catchBlock_def)
next
  assume "generateContent env req = Inr response \<and> candidates response = Some (c # cs) \<and>
    content c = Some ct \<and> parts ct = Some ps \<and> (\<forall>q\<in>set ps. inlineData q = None)"
  then have "tryBlock env req =
     (if finishReason c \<noteq> Some (js ''STOP'')
      then Inl (Error (js ''Processing was stopped due to: '' @ template (finishReason c) @
                       js ''. Please try a different image.''))
      else Inl (Error (js ''No image data found in the API response.'')))"
    by (intro tryBlock_no_payload) auto
  then show "\<exists>m. tryBlock env req = Inl (Error m)" by (simp split: if_splits)
next
  assume "generateContent env req = Inr response \<and> tryBlock env req = Inl e''"
  then show "\<exists>m. e'' = Error m"
    by (auto simp: tryBlock_def split: option.splits list.splits if_splits)
next
  assume "generateContent env req = Inl e"
  then show "tryBlock env req = Inl e" by (simp add: tryBlock_def)
next
  assume a: "parseDataUrl dataUrl = Inl e'"
  then have "e' = Error (js ''Invalid data URL format'')"
    by (simp only: parseDataUrl_Inl_iff)
  with a show "removeImageBackground env dataUrl = (Inl (Error (js ''Invalid data URL format'')), [])"
    by (simp add: removeImageBackground_def)
qed

theorem removeImageBackground_rethrow_witness:
  "fst (removeImageBackground
          \<lparr>fileToDataUrl = (\<lambda>f. Inl NonError),
           generateContent = (\<lambda>req. Inl (Error (js ''fetch failed''))),
           typeErrorMessage = (\<lambda>a. js ''undefined is not an object'')\<rparr>
          (js ''data:image/png;base64,iVBORw0KGgo='')) =
     Inl (Error (js ''API Error: fetch failed'')) \<and>
   fst (removeImageBackground
          \<lparr>fileToDataUrl = (\<lambda>f. Inl NonError),
           generateContent = (\<lambda>req. Inl NonError),
           typeErrorMessage = (\<lambda>a. js ''undefined is not an object'')\<rparr>
          (js ''data:image/png;base64,iVBORw0KGgo='')) =
     Inl (Error (js ''An unknown error occurred while communicating with the API.'')) \<and>
   removeImageBackground
          \<lparr>fileToDataUrl = (\<lambda>f. Inl NonError),
           generateContent = (\<lambda>req. Inl NonError),
           typeErrorMessage = (\<lambda>a. js ''undefined is not an object'')\<rparr>
          (js ''image.png'') = (Inl (Error (js ''Invalid data URL format'')), [])"
proof (intro conjI)
  let ?p = "\<lparr>base64Data = js ''iVBORw0KGgo='', mimeType = js ''image/png''\<rparr>"
  let ?env1 = "\<lparr>fileToDataUrl = (\<lambda>f. Inl NonError),
           generateContent = (\<lambda>req. Inl (Error (js ''fetch failed''))),
           typeErrorMessage = (\<lambda>a. js ''undefined is not an object'')\<rparr>"
  let ?env2 = "\<lparr>fileToDataUrl = (\<lambda>f. Inl NonError),
           generateContent = (\<lambda>req. Inl NonError),
           typeErrorMessage = (\<lambda>a. js ''undefined is not an object'')\<rparr>"
  have "tryBlock ?env1 (buildRequest ?p) = Inl (Error (js ''fetch failed''))"
    by (simp add: tryBlock_def)
  with parseDataUrl_example
  have "fst (removeImageBackground ?env1 (js ''data:image/png;base64,iVBORw0KGgo='')) =
      Inl (Error (js ''API Error: '' @ js ''fetch failed''))"
    using removeImageBackground_rethrow [THEN conjunct1, rule_format,
        of "js ''data:image/png;base64,iVBORw0KGgo=''" ?p ?env1 "js ''fetch failed''"]
    by blast
  then show "fst (removeImageBackground ?env1 (js ''data:image/png;base64,iVBORw0KGgo='')) =
      Inl (Error (js ''API Error: fetch failed''))"
    by (simp add: js_def)
  have "tryBlock ?env2 (buildRequest ?p) = Inl NonError"
    by (simp add: tryBlock_def)
  with parseDataUrl_example
  show "fst (removeImageBackground ?env2 (js ''data:image/png;base64,iVBORw0KGgo='')) =
      Inl (Error (js ''An unknown error occurred while communicating with the API.''))"
    using removeImageBackground_rethrow [THEN conjunct2, THEN conjunct1, rule_format,
        of "js ''data:image/png;base64,iVBORw0KGgo=''" ?p ?env2]
    by blast
  have "parseDataUrl (js ''image.png'') = Inl (Error (js ''Invalid data URL format''))"
    by (simp add: parseDataUrl_def dataUrlRegex_def literal_def startsWith_def js_def)
  then show "removeImageBackground ?env2 (js ''image.png'') =
      (Inl (Error (js ''Invalid data URL format'')), [])"
    using removeImageBackground_rethrow [THEN conjunct2, THEN conjunct2, THEN conjunct2,
        THEN conjunct2, THEN conjunct2, rule_format, of "js ''image.png''"]
    by blast
qed

theorem removeImageBackground_rethrow_counterexample:
  "fst (removeImageBackground
          \<lparr>fileToDataUrl = (\<lambda>f. Inl NonError),
           generateContent = (\<lambda>req. Inl NonError),
           typeErrorMessage = (\<lambda>a. js ''undefined is not an object'')\<rparr>
          (js ''data:image/png;base64,iVBORw0KGgo='')) =
     Inl (Error (js ''An unknown error occurred while communicating with the API.'')) \<and>
   \<not> startsWith (js ''An unknown error occurred while communicating with the API.'')
       (js ''API Error: '')"
proof
  show "fst (removeImageBackground
          \<lparr>fileToDataUrl = (\<lambda>f. Inl NonError),
           generateContent = (\<lambda>req. Inl NonError),
           typeErrorMessage = (\<lambda>a. js ''undefined is not an object'')\<rparr>
          (js ''data:image/png;base64,iVBORw0KGgo='')) =
     Inl (Error (js ''An unknown error occurred while communicating with the API.''))"
    by (simp add: removeImageBackground_def parseDataUrl_example tryBlock_def catchBlock_def)
  show "\<not> startsWith (js ''An unknown error occurred while communicating with the API.'')
       (js ''API Error: '')"
    by (simp add: startsWith_def js_def)
qed

section \<open>The component\<close>

lemma processFile_rejected:
  "\<not> startsWith (fileType f) (js ''image/'') \<Longrightarrow>
   processFile env f st =
     (st\<lparr>errorMessage := js ''Please upload a valid image file.'', appState := error\<rparr>, [])"
  by (simp add: processFile_def)

lemma processFile_success:
  assumes "appState (fst (processFile env f st)) = success"
  shows "\<exists>dataUrl resultBase64.
           startsWith (fileType f) (js ''image/'') \<and>
           fileToDataUrl env f = Inr dataUrl \<and>
           fst (removeImageBackground env dataUrl) = Inr resultBase64 \<and>
           originalImage (fst (processFile env f st)) = Some dataUrl \<and>
           processedImage (fst (processFile env f st)) =
             Some (js ''data:image/png;base64,'' @ resultBase64)"
  using assms
  by (auto simp: processFile_def processFileStart_def processFileCatch_def Let_def
      split: if_splits sum.splits prod.splits)

lemma processFile_failure:
  assumes "startsWith (fileType f) (js ''image/'')"
    and "appState (fst (processFile env f st)) \<noteq> success"
  shows "appState (fst (processFile env f st)) = error \<and>
         originalImage (fst (processFile env f st)) = None"
  using assms
  by (auto simp: processFile_def processFileStart_def processFileCatch_def Let_def
      split: if_splits sum.splits prod.splits)

lemma parseDataUrl_jpeg:
  "parseDataUrl (js ''data:image/jpeg;base64,/9j/4AAQ'') =
     Inr \<lparr>base64Data = js ''/9j/4AAQ'', mimeType = js ''image/jpeg''\<rparr>"
  by (simp add: parseDataUrl_def dataUrlRegex_def literal_def startsWith_def dotPlus_def
      endOfInput_def js_def dot_def lineTerminator_def)

lemma handleFileChange_jpeg:
  "fst (handleFileChange
     \<lparr>fileToDataUrl = (\<lambda>f. Inr (js ''data:image/jpeg;base64,/9j/4AAQ'')),
      generateContent = (\<lambda>req. Inr \<lparr>candidates = Some
        [\<lparr>content = Some \<lparr>parts = Some
            [\<lparr>inlineData = Some \<lparr>data = js ''QUJD'', blobMimeType = js ''image/png''\<rparr>,
              partText = None\<rparr>]\<rparr>,
          finishReason = Some (js ''STOP'')\<rparr>]\<rparr>),
      typeErrorMessage = (\<lambda>a. js ''undefined is not an object'')\<rparr>
     [\<lparr>fileType = js ''image/jpeg'', fileName = js ''photo.jpg'', fileBytes = [0xFF, 0xD8, 0xFF, 0xE0, 0x00, 0x10]\<rparr>]
     initialApp) =
   \<lparr>originalImage = Some (js ''data:image/jpeg;base64,/9j/4AAQ''),
    processedImage = Some (js ''data:image/png;base64,'' @ js ''QUJD''),
    appState = success, errorMessage = js '''', fileInputValue = Some (js '''')\<rparr>"
proof -
  have "startsWith (js ''image/jpeg'') (js ''image/'')" by (simp add: startsWith_def js_def)
  then show ?thesis
    by (simp add: handleFileChange_def processFile_def processFileStart_def
        removeImageBackground_def parseDataUrl_jpeg tryBlock_def catchBlock_def initialApp_def)
qed

text \<open>
  Claim C5, as amended. For a file whose declared type does not start with
  \<^verbatim>\<open>image/\<close>, \<^verbatim>\<open>processFile\<close> ends in the state \<^verbatim>\<open>error\<close> with the message
  \<^verbatim>\<open>Please upload a valid image file.\<close>, changes nothing else and hands no request to
  the remote service; so does the selection of the file in the file input, and so does
  a drop of the file while the state is not \<^verbatim>\<open>processing\<close>. A drop while the state is
  \<^verbatim>\<open>processing\<close> is ignored: the state stays as it is and no request is made, which
  is where the claim as stated fails.
\<close>

theorem non_image_file_rejected:
  assumes "\<not> startsWith (fileType f) (js ''image/'')"
  shows "processFile env f st =
           (st\<lparr>errorMessage := js ''Please upload a valid image file.'', appState := error\<rparr>, []) \<and>
         handleFileChange env (f # fs) st =
           (st\<lparr>errorMessage := js ''Please upload a valid image file.'', appState := error\<rparr>, []) \<and>
         handleDrop env (f # fs) st =
           (if appState st = processing then (st, [])
            else (st\<lparr>errorMessage := js ''Please upload a valid image file.'',
                      appState := error\<rparr>, []))"
  by (simp add: handleFileChange_def handleDrop_def processFile_rejected [OF assms])

theorem non_image_file_rejected_witness:
  "handleFileChange
     \<lparr>fileToDataUrl = (\<lambda>f. Inr (js ''data:text/plain;base64,aGk='')),
      generateContent = (\<lambda>req. Inl (Error (js ''fetch failed''))),
      typeErrorMessage = (\<lambda>a. js ''undefined is not an object'')\<rparr>
     [\<lparr>fileType = js ''text/plain'', fileName = js ''notes.txt'', fileBytes = [0x68, 0x69]\<rparr>]
     initialApp =
   (\<lparr>originalImage = None, processedImage = None, appState = error,
     errorMessage = js ''Please upload a valid image file.'', fileInputValue = Some (js '''')\<rparr>, [])"
proof -
  have "\<not> startsWith (fileType \<lparr>fileType = js ''text/plain'', fileName = js ''notes.txt'',
      fileBytes = [0x68, 0x69]\<rparr>) (js ''image/'')"
    by (simp add: startsWith_def js_def)
  from non_image_file_rejected [OF this, THEN conjunct2, THEN conjunct1]
  show ?thesis by (simp add: initialApp_def)
qed

theorem drop_while_processing_counterexample:
  "\<not> startsWith (fileType \<lparr>fileType = js ''text/plain'', fileName = js ''notes.txt'',
       fileBytes = [0x68, 0x69]\<rparr>) (js ''image/'') \<and>
   appState (processFileStart initialApp) = processing \<and>
   handleDrop
     \<lparr>fileToDataUrl = (\<lambda>f. Inr (js ''data:text/plain;base64,aGk='')),
      generateContent = (\<lambda>req. Inl (Error (js ''fetch failed''))),
      typeErrorMessage = (\<lambda>a. js ''undefined is not an object'')\<rparr>
     [\<lparr>fileType = js ''text/plain'', fileName = js ''notes.txt'', fileBytes = [0x68, 0x69]\<rparr>]
     (processFileStart initialApp) = (processFileStart initialApp, [])"
  by (simp add: handleDrop_def processFileStart_def startsWith_def js_def)

text \<open>
  Claim C6, at an input where the program departs from it. After an attempt that
  succeeded, a text file is dropped on the component. The file is rejected before
  anything else happens: the state is \<^verbatim>\<open>error\<close>, and the original image of the earlier
  attempt is still there. The failures of the later steps (the file reader, the
  parser, the remote call) go through the \<^verbatim>\<open>catch\<close> clause, which does reset the
  original image, as \<open>processFile_failure\<close> states.
\<close>

theorem rejected_drop_keeps_originalImage:
  "appState (fst (handleFileChange
     \<lparr>fileToDataUrl = (\<lambda>f. Inr (js ''data:image/jpeg;base64,/9j/4AAQ'')),
      generateContent = (\<lambda>req. Inr \<lparr>candidates = Some
        [\<lparr>content = Some \<lparr>parts = Some
            [\<lparr>inlineData = Some \<lparr>data = js ''QUJD'', blobMimeType = js ''image/png''\<rparr>,
              partText = None\<rparr>]\<rparr>,
          finishReason = Some (js ''STOP'')\<rparr>]\<rparr>),
      typeErrorMessage = (\<lambda>a. js ''undefined is not an object'')\<rparr>
     [\<lparr>fileType = js ''image/jpeg'', fileName = js ''photo.jpg'', fileBytes = [0xFF, 0xD8, 0xFF, 0xE0, 0x00, 0x10]\<rparr>]
     initialApp)) = success \<and>
   appState (fst (handleDrop
     \<lparr>fileToDataUrl = (\<lambda>f. Inr (js ''data:image/jpeg;base64,/9j/4AAQ'')),
      generateContent = (\<lambda>req. Inr \<lparr>candidates = Some
        [\<lparr>content = Some \<lparr>parts = Some
            [\<lparr>inlineData = Some \<lparr>data = js ''QUJD'', blobMimeType = js ''image/png''\<rparr>,
              partText = None\<rparr>]\<rparr>,
          finishReason = Some (js ''STOP'')\<rparr>]\<rparr>),
      typeErrorMessage = (\<lambda>a. js ''undefined is not an object'')\<rparr>
     [\<lparr>fileType = js ''text/plain'', fileName = js ''notes.txt'', fileBytes = [0x68, 0x69]\<rparr>]
     (fst (handleFileChange
     \<lparr>fileToDataUrl = (\<lambda>f. Inr (js ''data:image/jpeg;base64,/9j/4AAQ'')),
      generateContent = (\<lambda>req. Inr \<lparr>candidates = Some
        [\<lparr>content = Some \<lparr>parts = Some
            [\<lparr>inlineData = Some \<lparr>data = js ''QUJD'', blobMimeType = js ''image/png''\<rparr>,
              partText = None\<rparr>]\<rparr>,
          finishReason = Some (js ''STOP'')\<rparr>]\<rparr>),
      typeErrorMessage = (\<lambda>a. js ''undefined is not an object'')\<rparr>
     [\<lparr>fileType = js ''image/jpeg'', fileName = js ''photo.jpg'', fileBytes = [0xFF, 0xD8, 0xFF, 0xE0, 0x00, 0x10]\<rparr>]
     initialApp)))) = error \<and>
   originalImage (fst (handleDrop
     \<lparr>fileToDataUrl = (\<lambda>f. Inr (js ''data:image/jpeg;base64,/9j/4AAQ'')),
      generateContent = (\<lambda>req. Inr \<lparr>candidates = Some
        [\<lparr>content = Some \<lparr>parts = Some
            [\<lparr>inlineData = Some \<lparr>data = js ''QUJD'', blobMimeType = js ''image/png''\<rparr>,
              partText = None\<rparr>]\<rparr>,
          finishReason = Some (js ''STOP'')\<rparr>]\<rparr>),
      typeErrorMessage = (\<lambda>a. js ''undefined is not an object'')\<rparr>
     [\<lparr>fileType = js ''text/plain'', fileName = js ''notes.txt'', fileBytes = [0x68, 0x69]\<rparr>]
     (fst (handleFileChange
     \<lparr>fileToDataUrl = (\<lambda>f. Inr (js ''data:image/jpeg;base64,/9j/4AAQ'')),
      generateContent = (\<lambda>req. Inr \<lparr>candidates = Some
        [\<lparr>content = Some \<lparr>parts = Some
            [\<lparr>inlineData = Some \<lparr>data = js ''QUJD'', blobMimeType = js ''image/png''\<rparr>,
              partText = None\<rparr>]\<rparr>,
          finishReason = Some (js ''STOP'')\<rparr>]\<rparr>),
      typeErrorMessage = (\<lambda>a. js ''undefined is not an object'')\<rparr>
     [\<lparr>fileType = js ''image/jpeg'', fileName = js ''photo.jpg'', fileBytes = [0xFF, 0xD8, 0xFF, 0xE0, 0x00, 0x10]\<rparr>]
     initialApp)))) =
     Some (js ''data:image/jpeg;base64,/9j/4AAQ'')"
proof -
  have "\<not> startsWith (js ''text/plain'') (js ''image/'')" by (simp add: startsWith_def js_def)
  then show ?thesis by (simp add: handleFileChange_jpeg handleDrop_def processFile_def)
qed

text \<open>
  Claim C7. \<^verbatim>\<open>handleReset\<close> gives the state \<^verbatim>\<open>idle\<close> with the original image and the
  processed image both \<^verbatim>\<open>null\<close> and the error text empty, from the state \<^verbatim>\<open>success\<close>,
  from the state \<^verbatim>\<open>error\<close> and from any other state.
\<close>

theorem handleReset_idle:
  "appState (handleReset st) = idle \<and>
   originalImage (handleReset st) = None \<and>
   processedImage (handleReset st) = None \<and>
   errorMessage (handleReset st) = js ''''"
  by (simp add: handleReset_def Let_def split: option.splits)

lemma processFile_stages:
  "processFile env f st =
     (case processFileBegin f st of
        (st1, []) \<Rightarrow> (st1, [])
      | (st1, _ # _) \<Rightarrow>
          (case processFileRead env f st1 of
             (st2, AwaitRemote dataUrl # _) \<Rightarrow>
               (processFileSettled (fst (removeImageBackground env dataUrl)) st2,
                snd (removeImageBackground env dataUrl))
           | (st2, _) \<Rightarrow> (st2, [])))"
  by (auto simp: processFile_def processFileBegin_def processFileRead_def processFileSettled_def
      removeImageBackground_def Let_def split: sum.splits prod.splits)

lemma reachable_success:
  assumes "reachable w" and "appState (ui w) = success"
  shows "\<exists>dataUrl resultBase64 earlier.
           returned w = (dataUrl, resultBase64) # earlier \<and>
           processedImage (ui w) = Some (js ''data:image/png;base64,'' @ resultBase64)"
  using assms
proof (induction rule: reachable.induct)
  case initial
  then show ?case by (simp add: initialApp_def)
next
  case (fileChange w f)
  then show ?case
    by (simp add: processFileBegin_def processFileStart_def split: if_splits)
next
  case (drop w f)
  then show ?case
    by (simp add: processFileBegin_def processFileStart_def split: if_splits)
next
  case (reset w)
  then show ?case by (simp add: handleReset_def Let_def split: option.splits)
next
  case (fileRead w f env)
  then show ?case
    by (auto simp: processFileRead_def processFileCatch_def Let_def split: sum.splits)
next
  case (settled w dataUrl env)
  then show ?case
    by (auto simp: processFileSettled_def processFileCatch_def Let_def split: sum.splits)
qed

lemma returned_sound:
  assumes "reachable w" and "(dataUrl, resultBase64) \<in> set (returned w)"
  shows "\<exists>env. fst (removeImageBackground env dataUrl) = Inr resultBase64"
  using assms
proof (induction rule: reachable.induct)
  case (settled w d env)
  then show ?case by (auto split: sum.splits)
qed auto

lemma removeImageBackground_jpeg:
  "fst (removeImageBackground
     \<lparr>fileToDataUrl = (\<lambda>f. Inr (js ''data:image/jpeg;base64,/9j/4AAQ'')),
      generateContent = (\<lambda>req. Inr \<lparr>candidates = Some
        [\<lparr>content = Some \<lparr>parts = Some
            [\<lparr>inlineData = Some \<lparr>data = js ''QUJD'', blobMimeType = js ''image/png''\<rparr>,
              partText = None\<rparr>]\<rparr>,
          finishReason = Some (js ''STOP'')\<rparr>]\<rparr>),
      typeErrorMessage = (\<lambda>a. js ''undefined is not an object'')\<rparr>
     (js ''data:image/jpeg;base64,/9j/4AAQ'')) = Inr (js ''QUJD'')"
  by (simp add: removeImageBackground_def parseDataUrl_jpeg tryBlock_def catchBlock_def)

text \<open>
  Claim C9. Whenever the state is \<^verbatim>\<open>success\<close>, the processed image is the fixed prefix
  \<^verbatim>\<open>data:image/png;base64,\<close> followed by the service result, whatever the media type
  of the uploaded file. For one call of \<^verbatim>\<open>processFile\<close> run to its end, the result is
  the one that \<^verbatim>\<open>removeImageBackground\<close> returned for the data URL of that file. For
  the component with its calls interleaved, it is the latest result that
  \<^verbatim>\<open>removeImageBackground\<close> has returned.
\<close>

theorem success_processedImage:
  "(appState (fst (processFile env f st)) = success \<longrightarrow>
      (\<exists>dataUrl resultBase64.
         fileToDataUrl env f = Inr dataUrl \<and>
         fst (removeImageBackground env dataUrl) = Inr resultBase64 \<and>
         processedImage (fst (processFile env f st)) =
           Some (js ''data:image/png;base64,'' @ resultBase64))) \<and>
   (reachable w \<and> appState (ui w) = success \<longrightarrow>
      (\<exists>dataUrl resultBase64 earlier.
         returned w = (dataUrl, resultBase64) # earlier \<and>
         processedImage (ui w) = Some (js ''data:image/png;base64,'' @ resultBase64)))"
proof (intro conjI impI)
  assume "appState (fst (processFile env f st)) = success"
  from processFile_success [OF this]
  show "\<exists>dataUrl resultBase64.
         fileToDataUrl env f = Inr dataUrl \<and>
         fst (removeImageBackground env dataUrl) = Inr resultBase64 \<and>
         processedImage (fst (processFile env f st)) =
           Some (js ''data:image/png;base64,'' @ resultBase64)"
    by blast
next
  assume "reachable w \<and> appState (ui w) = success"
  then show "\<exists>dataUrl resultBase64 earlier.
         returned w = (dataUrl, resultBase64) # earlier \<and>
         processedImage (ui w) = Some (js ''data:image/png;base64,'' @ resultBase64)"
    using reachable_success by blast
qed

theorem success_processedImage_witness:
  "reachable
     \<lparr>ui = \<lparr>originalImage = None,
             processedImage = Some (js ''data:image/png;base64,'' @ js ''QUJD''),
             appState = success, errorMessage = js '''', fileInputValue = Some (js '''')\<rparr>,
      inflight = [],
      returned = [(js ''data:image/jpeg;base64,/9j/4AAQ'', js ''QUJD'')]\<rparr> \<and>
   (\<exists>dataUrl resultBase64 earlier.
      [(js ''data:image/jpeg;base64,/9j/4AAQ'', js ''QUJD'')] = (dataUrl, resultBase64) # earlier \<and>
      Some (js ''data:image/png;base64,'' @ js ''QUJD'') =
        Some (js ''data:image/png;base64,'' @ resultBase64)) \<and>
   processedImage (fst (processFile
     \<lparr>fileToDataUrl = (\<lambda>f. Inr (js ''data:image/jpeg;base64,/9j/4AAQ'')),
      generateContent = (\<lambda>req. Inr \<lparr>candidates = Some
        [\<lparr>content = Some \<lparr>parts = Some
            [\<lparr>inlineData = Some \<lparr>data = js ''QUJD'', blobMimeType = js ''image/png''\<rparr>,
              partText = None\<rparr>]\<rparr>,
          finishReason = Some (js ''STOP'')\<rparr>]\<rparr>),
      typeErrorMessage = (\<lambda>a. js ''undefined is not an object'')\<rparr>
     \<lparr>fileType = js ''image/jpeg'', fileName = js ''photo.jpg'', fileBytes = [0xFF, 0xD8, 0xFF, 0xE0, 0x00, 0x10]\<rparr>
     initialApp)) = Some (js ''data:image/png;base64,'' @ js ''QUJD'')"
proof -
  let ?env = "\<lparr>fileToDataUrl = (\<lambda>f. Inr (js ''data:image/jpeg;base64,/9j/4AAQ'')),
      generateContent = (\<lambda>req. Inr \<lparr>candidates = Some
        [\<lparr>content = Some \<lparr>parts = Some
            [\<lparr>inlineData = Some \<lparr>data = js ''QUJD'', blobMimeType = js ''image/png''\<rparr>,
              partText = None\<rparr>]\<rparr>,
          finishReason = Some (js ''STOP'')\<rparr>]\<rparr>),
      typeErrorMessage = (\<lambda>a. js ''undefined is not an object'')\<rparr>"
  let ?f = "\<lparr>fileType = js ''image/jpeg'', fileName = js ''photo.jpg'',
      fileBytes = [0xFF, 0xD8, 0xFF, 0xE0, 0x00, 0x10]\<rparr>"
  let ?url = "js ''data:image/jpeg;base64,/9j/4AAQ''"
  let ?w1 = "\<lparr>ui = \<lparr>originalImage = None, processedImage = None, appState = processing,
      errorMessage = js '''', fileInputValue = Some (js '''')\<rparr>,
      inflight = [AwaitFile ?f], returned = []\<rparr>"
  let ?w2 = "\<lparr>ui = \<lparr>originalImage = Some ?url, processedImage = None, appState = processing,
      errorMessage = js '''', fileInputValue = Some (js '''')\<rparr>,
      inflight = [AwaitRemote ?url], returned = []\<rparr>"
  let ?w3 = "\<lparr>ui = \<lparr>originalImage = None, processedImage = None, appState = idle,
      errorMessage = js '''', fileInputValue = Some (js '''')\<rparr>,
      inflight = [AwaitRemote ?url], returned = []\<rparr>"
  let ?w4 = "\<lparr>ui = \<lparr>originalImage = None,
             processedImage = Some (js ''data:image/png;base64,'' @ js ''QUJD''),
             appState = success, errorMessage = js '''', fileInputValue = Some (js '''')\<rparr>,
      inflight = [], returned = [(?url, js ''QUJD'')]\<rparr>"
  have image: "startsWith (js ''image/jpeg'') (js ''image/'')"
    by (simp add: startsWith_def js_def)
  have "reachable ?w1"
    using reachable.fileChange [OF reachable.initial, of ?f] image
    by (simp add: processFileBegin_def processFileStart_def initialApp_def)
  from reachable.fileRead [OF this, of ?f ?env]
  have "reachable ?w2"
    by (simp add: processFileRead_def parseDataUrl_jpeg)
  from reachable.reset [OF this]
  have "reachable ?w3"
    by (simp add: handleReset_def)
  from reachable.settled [OF this, of ?url ?env]
  have w4: "reachable ?w4"
    by (simp add: removeImageBackground_jpeg processFileSettled_def)
  have "reachable ?w4 \<and> appState (ui ?w4) = success" using w4 by simp
  from success_processedImage [THEN conjunct2, rule_format, OF this] w4
  have interleaved: "reachable ?w4 \<and>
   (\<exists>dataUrl resultBase64 earlier.
      [(?url, js ''QUJD'')] = (dataUrl, resultBase64) # earlier \<and>
      Some (js ''data:image/png;base64,'' @ js ''QUJD'') =
        Some (js ''data:image/png;base64,'' @ resultBase64))"
    by simp
  have run: "fst (processFile ?env ?f initialApp) =
      \<lparr>originalImage = Some ?url,
       processedImage = Some (js ''data:image/png;base64,'' @ js ''QUJD''),
       appState = success, errorMessage = js '''', fileInputValue = Some (js '''')\<rparr>"
    using handleFileChange_jpeg by (simp add: handleFileChange_def)
  then have "appState (fst (processFile ?env ?f initialApp)) = success" by simp
  from success_processedImage [THEN conjunct1, rule_format, OF this]
  obtain dataUrl resultBase64 where
    read: "fileToDataUrl ?env ?f = Inr dataUrl" and
    returned: "fst (removeImageBackground ?env dataUrl) = Inr resultBase64" and
    shown: "processedImage (fst (processFile ?env ?f initialApp)) =
       Some (js ''data:image/png;base64,'' @ resultBase64)"
    by blast
  from read have "dataUrl = ?url" by simp
  with returned have "Inr resultBase64 = (Inr (js ''QUJD'') :: thrown + jsstring)"
    by (simp only: removeImageBackground_jpeg)
  then have "resultBase64 = js ''QUJD''" by simp
  with shown have "processedImage (fst (processFile ?env ?f initialApp)) =
       Some (js ''data:image/png;base64,'' @ js ''QUJD'')"
    by simp
  with interleaved show ?thesis by blast
qed

end
